theory Spec2Isabelle
  imports Main "HOL-Library.Sublist"
begin

section \<open>Python string operations used by the grader\<close>

text \<open>
  Transcripts, lines and cell values are ASCII text, modelled as \<open>string\<close>. The functions
  below are the methods of Python's \<open>str\<close> that the source calls, restricted to ASCII:
  \<open>upper\<close> maps the letters a to z to A to Z and leaves every other character alone,
  and the whitespace removed by \<open>strip\<close> is the ASCII whitespace of \<open>str.isspace\<close>
  (tab, line feed, vertical tab, form feed, carriage return, the separators 0x1C to 0x1F
  and the space).
\<close>

definition isspace :: "char \<Rightarrow> bool" where
  "isspace c \<longleftrightarrow>
     c \<in> set [CHR 0x09, CHR 0x0A, CHR 0x0B, CHR 0x0C, CHR 0x0D,
              CHR 0x1C, CHR 0x1D, CHR 0x1E, CHR 0x1F, CHR 0x20]"

definition strip :: "string \<Rightarrow> string" where
  "strip s = rev (dropWhile isspace (rev (dropWhile isspace s)))"

definition upper_char :: "char \<Rightarrow> char" where
  "upper_char c =
     (let n = (of_char c :: nat) in if 97 \<le> n \<and> n \<le> 122 then char_of (n - 32) else c)"

definition upper :: "string \<Rightarrow> string" where
  "upper s = map upper_char s"

text \<open>\<open>sub in s\<close>: the substring test.\<close>

fun str_in :: "string \<Rightarrow> string \<Rightarrow> bool" where
  "str_in sub [] = (sub = [])"
| "str_in sub (c # cs) = (prefix sub (c # cs) \<or> str_in sub cs)"

text \<open>\<open>s.split(sep)\<close> for a one-character separator: never an empty list.\<close>

fun split :: "char \<Rightarrow> string \<Rightarrow> string list" where
  "split sep [] = [[]]"
| "split sep (c # cs) =
     (if c = sep then [] # split sep cs
      else (case split sep cs of
              [] \<Rightarrow> [[c]]
            | l # ls \<Rightarrow> (c # l) # ls))"

text \<open>\<open>s.split(sep, 1)\<close>: at most one split, at the first separator.\<close>

definition split1 :: "char \<Rightarrow> string \<Rightarrow> string list" where
  "split1 sep s =
     (if sep \<in> set s
      then [takeWhile (\<lambda>c. c \<noteq> sep) s, tl (dropWhile (\<lambda>c. c \<noteq> sep) s)]
      else [s])"

text \<open>\<open>s.startswith((p1, p2, ...))\<close>: some prefix of the tuple matches.\<close>

definition startswith :: "string \<Rightarrow> string list \<Rightarrow> bool" where
  "startswith s ps \<longleftrightarrow> list_ex (\<lambda>p. prefix p s) ps"

section \<open>The decision extractor (sponsor\_grader.py)\<close>

text \<open>
  The inner \<open>while\<close> loop of \<open>_extract_tier_and_reasoning\<close>: the lines after the reasoning
  line are appended, each stripped and after one space, until a line is blank or its
  upper-cased text starts with SPONSOR, RESEARCH or SUMMARY, or the lines run out.
\<close>

fun continuation :: "string \<Rightarrow> string list \<Rightarrow> string" where
  "continuation reasoning [] = reasoning"
| "continuation reasoning (l # ls) =
     (if strip l \<noteq> [] \<and> \<not> startswith (upper l) [''SPONSOR'', ''RESEARCH'', ''SUMMARY'']
      then continuation (reasoning @ '' '' @ strip l) ls
      else reasoning)"

text \<open>The classification of a decision line: the text after its last colon decides.\<close>

definition classify :: "string \<Rightarrow> string" where
  "classify line =
     (let decision_line = upper (strip (last (split CHR '':'' line)))
      in if str_in ''FLAGSHIP'' decision_line then ''Flagship''
         else if str_in ''ELIGIBLE'' decision_line then ''Eligible''
         else ''Rejected'')"

text \<open>
  The \<open>for\<close> loop over the lines, with the two variables it assigns. The argument is the
  list of lines from the current one on, so the lines \<open>lines[i+1:]\<close> that the inner loop
  reads are the tail. The \<open>break\<close> of the reasoning branch ends the scan.
\<close>

fun scan :: "string list \<Rightarrow> string \<Rightarrow> string \<Rightarrow> string \<times> string" where
  "scan [] category reasoning = (category, reasoning)"
| "scan (line # rest) category reasoning =
     (let category' =
            (if str_in ''SPONSOR DECISION:'' (upper line) then classify line else category)
      in if str_in ''REASONING:'' (upper line)
         then (category', continuation (strip (last (split1 CHR '':'' line))) rest)
         else scan rest category' reasoning)"

text \<open>
  \<open>_extract_tier_and_reasoning\<close>. Nothing in the body raises on a string, so the
  \<open>except\<close> branch of the source is never taken and has no counterpart here.
\<close>

definition extract_tier_and_reasoning :: "string \<Rightarrow> string \<times> string" where
  "extract_tier_and_reasoning research_output =
     scan (split CHR 0x0A research_output)
       ''Rejected'' ''Unable to parse sponsor decision from research output''"

section \<open>The research call (sponsor\_grader.py)\<close>

text \<open>
  \<open>_build_research_prompt\<close>: the fixed instruction text around the three values of the
  record.
\<close>

definition build_research_prompt :: "string \<Rightarrow> string \<Rightarrow> string \<Rightarrow> string" where
  "build_research_prompt company_name website_url description =
     ''\<newline>''
       @ ''You are a professional sponsor evaluation analyst for Token Metrics. Your task is to thoroughly research and grade potential sponsors on a tier system (A, B, C).\<newline>''
       @ ''\<newline>''
       @ ''Company Information:\<newline>''
       @ ''- Name: ''
       @ company_name
       @ ''\<newline>''
       @ ''- Website: ''
       @ website_url
       @ ''\<newline>''
       @ ''- Description: ''
       @ description
       @ ''\<newline>''
       @ ''\<newline>''
       @ ''Research Requirements:\<newline>''
       @ ''1. Company Background & Legitimacy\<newline>''
       @ ''   - Verify company existence and legitimacy\<newline>''
       @ ''   - Check company registration, founding date, key personnel\<newline>''
       @ ''   - Assess business model and core offerings\<newline>''
       @ ''\<newline>''
       @ ''2. Financial Stability & Reputation\<newline>''
       @ ''   - Look for funding rounds, revenue information, financial health\<newline>''
       @ ''   - Check for any financial difficulties or bankruptcies\<newline>''
       @ ''   - Assess market position and competitive standing\<newline>''
       @ ''\<newline>''
       @ ''3. FUD (Fear, Uncertainty, Doubt) Analysis\<newline>''
       @ ''   - Search for negative news, controversies, scandals\<newline>''
       @ ''   - Check for regulatory issues, legal problems\<newline>''
       @ ''   - Look for customer complaints, security breaches\<newline>''
       @ ''   - Assess any reputational risks\<newline>''
       @ ''\<newline>''
       @ ''4. Industry Standing\<newline>''
       @ ''   - Evaluate industry reputation and peer recognition\<newline>''
       @ ''   - Check for awards, certifications, partnerships\<newline>''
       @ ''   - Assess leadership team credibility\<newline>''
       @ ''\<newline>''
       @ ''Grading Criteria:\<newline>''
       @ ''- Flagship Sponsors: Global leaders with strong brand equity and deep budgets. Excellent reputation, strong financials, no significant FUD, industry leader status.\<newline>''
       @ ''- Eligible Sponsors: Solid, reputable brands that meet our standards but are not top tier. Good reputation, stable financials, minor concerns that don't significantly impact credibility.\<newline>''
       @ ''- Rejected Sponsors: Entities that fail financial, brand-fit, or compliance checks. Poor reputation, financial instability, significant FUD, or high-risk factors.\<newline>''
       @ ''\<newline>''
       @ ''Please provide:\<newline>''
       @ ''1. A comprehensive research summary covering all areas above\<newline>''
       @ ''2. Your final sponsor category recommendation (Flagship, Eligible, or Rejected)\<newline>''
       @ ''3. A clear 2-3 sentence reasoning for your decision\<newline>''
       @ ''\<newline>''
       @ ''Format your response exactly as follows (no markdown formatting, only plain text):\<newline>''
       @ ''RESEARCH SUMMARY:\<newline>''
       @ ''[Your detailed research findings]\<newline>''
       @ ''\<newline>''
       @ ''SPONSOR DECISION: [Flagship/Eligible/Rejected]\<newline>''
       @ ''REASONING: [2-3 sentence explanation]\<newline>''"

text \<open>A dictionary with string keys; \<open>d.get(k, default)\<close>.\<close>

type_synonym row_dict = "string \<rightharpoonup> string"

definition dict_get :: "row_dict \<Rightarrow> string \<Rightarrow> string \<Rightarrow> string" where
  "dict_get d k dflt = (case d k of None \<Rightarrow> dflt | Some v \<Rightarrow> v)"

text \<open>
  \<open>research_and_grade_company\<close>. The remote text-generation client is a parameter: given
  the prompt it either raises, which is \<open>Inl\<close> of the text \<open>str(e)\<close> of the exception, or
  streams a reply, which is \<open>Inr\<close> of the concatenated deltas. The result is the pair
  (research notes, decision).
\<close>

definition research_and_grade_company ::
    "(string \<Rightarrow> string + string) \<Rightarrow> row_dict \<Rightarrow> string \<times> string" where
  "research_and_grade_company client company_data =
     (let company_name = dict_get company_data ''Company Name'' ''Unknown Company'';
          website_url = dict_get company_data ''Website URL'' [];
          company_description = dict_get company_data ''Company Description'' [];
          research_prompt = build_research_prompt company_name website_url company_description
      in case client research_prompt of
           Inr research_output \<Rightarrow>
             (let (category, reasoning) = extract_tier_and_reasoning research_output
              in (research_output, category @ '' Sponsor: '' @ reasoning))
         | Inl e \<Rightarrow>
             (''Research failed: '' @ e,
              ''Rejected Sponsor: Unable to complete research due to technical error''))"

section \<open>The worksheet behind the handler\<close>

text \<open>
  The remote worksheet (the gspread object of \<open>sheets_handler.py\<close>) is a grid of text
  cells: row 1 is the header, the data rows follow, so the data row at list position
  \<open>k\<close> is sheet row \<open>k + 2\<close>. Its calls are taken to answer; a call that fails raises in
  the source. Cell values are text: a numeric-looking cell that the library hands over
  as a number is outside this model.
\<close>

record worksheet =
  header_row :: "string list"
  data_rows :: "string list list"

definition pad :: "nat \<Rightarrow> string list \<Rightarrow> string list" where
  "pad n row = row @ replicate (n - length row) []"

text \<open>\<open>dict(zip(keys, values))\<close>: for a repeated key the later value stays.\<close>

definition dict_zip :: "string list \<Rightarrow> string list \<Rightarrow> row_dict" where
  "dict_zip keys vals = fold (\<lambda>(k, v) d. d(k \<mapsto> v)) (zip keys vals) Map.empty"

text \<open>
  \<open>worksheet.get_all_records()\<close>: one dictionary per data row, keyed by the header, a
  short row filled up with empty cells. \<open>worksheet.row_values(1)\<close> is \<open>header_row\<close>.
\<close>

definition ws_get_all_records :: "worksheet \<Rightarrow> row_dict list" where
  "ws_get_all_records ws =
     map (\<lambda>row. dict_zip (header_row ws) (pad (length (header_row ws)) row)) (data_rows ws)"

text \<open>
  \<open>worksheet.update_cell(row, col, value)\<close>, rows and columns counted from 1 (an index 0
  is refused by the service, which is \<open>None\<close>); the grid grows when the cell lies beyond
  it.
\<close>

definition set_cell :: "string list \<Rightarrow> nat \<Rightarrow> string \<Rightarrow> string list" where
  "set_cell row col v = (pad col row)[col - 1 := v]"

definition update_cell :: "worksheet \<Rightarrow> nat \<Rightarrow> nat \<Rightarrow> string \<Rightarrow> worksheet option" where
  "update_cell ws row col v =
     (if row = 0 \<or> col = 0 then None
      else if row = 1 then Some (ws\<lparr>header_row := set_cell (header_row ws) col v\<rparr>)
      else
        (let rows = data_rows ws @ replicate (row - 1 - length (data_rows ws)) []
         in Some (ws\<lparr>data_rows := rows[row - 2 := set_cell (rows ! (row - 2)) col v]\<rparr>)))"

section \<open>The sheets handler (sheets\_handler.py)\<close>

text \<open>\<open>a or b\<close> on strings: the first when it is not empty.\<close>

definition py_or :: "string \<Rightarrow> string \<Rightarrow> string" where
  "py_or a b = (if a \<noteq> [] then a else b)"

text \<open>The test of \<open>get_all_records\<close> on one record, and the method: the records that pass.\<close>

definition valid_record :: "row_dict \<Rightarrow> bool" where
  "valid_record record \<longleftrightarrow>
     (let timestamp = strip (dict_get record ''Timestamp'' []);
          project_name =
            strip (py_or (dict_get record ''Company Name'' []) (dict_get record ''Company Name '' []))
      in timestamp \<noteq> [] \<and> project_name \<noteq> [])"

definition get_all_records :: "worksheet \<Rightarrow> row_dict list" where
  "get_all_records ws = filter valid_record (ws_get_all_records ws)"

text \<open>
  A record returned by \<open>get_unprocessed_records\<close>: the dictionary of the row together with
  the value stored under the added key \<open>_row_index\<close>.
\<close>

record sheet_record =
  row_fields :: row_dict
  key_row_index :: nat

text \<open>
  The loop of \<open>get_unprocessed_records\<close> over \<open>enumerate(all_records)\<close>, from position
  \<open>i\<close> on.
\<close>

fun unprocessed_from :: "nat \<Rightarrow> row_dict list \<Rightarrow> sheet_record list" where
  "unprocessed_from i [] = []"
| "unprocessed_from i (record # rest) =
     (let research_notes = strip (dict_get record ''Research Notes'' []);
          decision = strip (dict_get record ''Decision'' [])
      in if research_notes = [] \<and> decision = []
         then \<lparr>row_fields = record, key_row_index = i + 2\<rparr> # unprocessed_from (i + 1) rest
         else unprocessed_from (i + 1) rest)"

definition get_unprocessed_records :: "worksheet \<Rightarrow> sheet_record list" where
  "get_unprocessed_records ws = unprocessed_from 0 (get_all_records ws)"

text \<open>\<open>headers.index(field)\<close>, called only under \<open>field in headers\<close>.\<close>

fun index :: "string list \<Rightarrow> string \<Rightarrow> nat" where
  "index [] x = 0"
| "index (y # ys) x = (if y = x then 0 else Suc (index ys x))"

text \<open>
  \<open>update_record\<close>: the header is read once, then each field of \<open>updates\<close> (in insertion
  order) is written to the first column of its name; a field without a column is skipped
  with a warning; a refused write is caught and ends the call with \<open>False\<close>.
\<close>

fun update_fields ::
    "worksheet \<Rightarrow> nat \<Rightarrow> string list \<Rightarrow> (string \<times> string) list \<Rightarrow> bool \<times> worksheet" where
  "update_fields ws row_index headers [] = (True, ws)"
| "update_fields ws row_index headers ((field, v) # rest) =
     (if field \<in> set headers
      then (case update_cell ws row_index (index headers field + 1) v of
              None \<Rightarrow> (False, ws)
            | Some ws' \<Rightarrow> update_fields ws' row_index headers rest)
      else update_fields ws row_index headers rest)"

definition update_record :: "worksheet \<Rightarrow> nat \<Rightarrow> (string \<times> string) list \<Rightarrow> bool \<times> worksheet" where
  "update_record ws row_index updates = update_fields ws row_index (header_row ws) updates"

text \<open>
  \<open>add_columns_if_missing\<close>: the local list \<open>headers\<close> is read once and grows with every
  column written behind its end.
\<close>

fun add_columns :: "worksheet \<Rightarrow> string list \<Rightarrow> string list \<Rightarrow> bool \<times> worksheet" where
  "add_columns ws headers [] = (True, ws)"
| "add_columns ws headers (column # rest) =
     (if column \<notin> set headers
      then (case update_cell ws 1 (length headers + 1) column of
              None \<Rightarrow> (False, ws)
            | Some ws' \<Rightarrow> add_columns ws' (headers @ [column]) rest)
      else add_columns ws headers rest)"

definition add_columns_if_missing :: "worksheet \<Rightarrow> string list \<Rightarrow> bool \<times> worksheet" where
  "add_columns_if_missing ws required_columns =
     add_columns ws (header_row ws) required_columns"

definition setup_required_columns :: "worksheet \<Rightarrow> bool \<times> worksheet" where
  "setup_required_columns ws = add_columns_if_missing ws [''Research Notes'', ''Decision'']"

section \<open>The grading pipeline (sponsor\_grader.py)\<close>

text \<open>
  What one iteration of the loop of \<open>process_unprocessed_records\<close> computes and hands to
  \<open>update_record\<close>, and the answer it gets; the console line of the iteration reports it.
\<close>

record iteration =
  it_company :: string
  it_row :: nat
  it_notes :: string
  it_decision :: string
  it_success :: bool

text \<open>
  The loop over the records to process: the state is the worksheet, the second result
  lists the iterations in order.
\<close>

fun process_records ::
    "(string \<Rightarrow> string + string) \<Rightarrow> worksheet \<Rightarrow> sheet_record list \<Rightarrow> worksheet \<times> iteration list" where
  "process_records client ws [] = (ws, [])"
| "process_records client ws (record # rest) =
     (let company_name = dict_get (row_fields record) ''Company Name'' ''Unknown'';
          (research_notes, decision) = research_and_grade_company client (row_fields record);
          updates = [(''Research Notes'', research_notes), (''Decision'', decision)];
          (success, ws') = update_record ws (key_row_index record) updates;
          (ws'', its) = process_records client ws' rest
      in (ws'',
          \<lparr>it_company = company_name, it_row = key_row_index record, it_notes = research_notes,
           it_decision = decision, it_success = success\<rparr> # its))"

text \<open>\<open>xs[:n]\<close> for an integer \<open>n\<close>: a negative \<open>n\<close> counts from the end.\<close>

definition slice_to :: "'a list \<Rightarrow> int \<Rightarrow> 'a list" where
  "slice_to xs n = (if 0 \<le> n then take (nat n) xs else take (length xs - nat (- n)) xs)"

text \<open>
  \<open>process_unprocessed_records\<close> on the connected worksheet; \<open>max_records\<close> is \<open>None\<close> or
  an integer, and an integer is true when it is not 0.
\<close>

definition process_unprocessed_records ::
    "(string \<Rightarrow> string + string) \<Rightarrow> worksheet \<Rightarrow> int option \<Rightarrow> worksheet \<times> iteration list" where
  "process_unprocessed_records client ws max_records =
     (let unprocessed_records = get_unprocessed_records ws
      in if unprocessed_records = [] then (ws, [])
         else
           (let unprocessed_records =
                  (case max_records of
                     Some n \<Rightarrow> if n \<noteq> 0 then slice_to unprocessed_records n else unprocessed_records
                   | None \<Rightarrow> unprocessed_records)
            in process_records client ws unprocessed_records))"

section \<open>Facts about the string operations\<close>

lemma isspace_code:
  "isspace c \<longleftrightarrow> (of_char c :: nat) \<in> {9, 10, 11, 12, 13, 28, 29, 30, 31, 32}"
proof -
  have eq: "\<And>d. c = d \<longleftrightarrow> (of_char c :: nat) = of_char d"
    by auto
  show ?thesis
    unfolding isspace_def by (simp add: eq)
qed

lemma isspace_upper_char: "isspace (upper_char c) = isspace c"
proof (cases "97 \<le> (of_char c :: nat) \<and> (of_char c :: nat) \<le> 122")
  case True
  then have "(of_char c - 32 :: nat) mod 256 = of_char c - 32"
    by (intro mod_less) arith
  with True have "(of_char (upper_char c) :: nat) = of_char c - 32"
    by (simp add: upper_char_def Let_def)
  with True show ?thesis
    unfolding isspace_code by auto
next
  case False
  then show ?thesis
    by (auto simp: upper_char_def Let_def)
qed

lemma upper_strip: "upper (strip s) = strip (upper s)"
proof -
  have c: "isspace \<circ> upper_char = isspace"
    by (rule ext) (simp add: isspace_upper_char)
  show ?thesis
    by (simp add: upper_def strip_def dropWhile_map rev_map c)
qed

lemma str_in_sublist: "str_in sub s \<longleftrightarrow> sublist sub s"
  by (induction s) (auto simp: sublist_Cons_right)

lemma sublist_dropWhile:
  assumes "sub \<noteq> []" "\<not> P (hd sub)"
  shows "sublist sub (dropWhile P s) \<longleftrightarrow> sublist sub s"
proof
  assume "sublist sub (dropWhile P s)"
  then show "sublist sub s"
    by (metis sublist_order.order_trans suffix_dropWhile suffix_imp_sublist)
next
  assume "sublist sub s"
  then show "sublist sub (dropWhile P s)"
  proof (induction s)
    case Nil
    then show ?case by simp
  next
    case (Cons a s)
    show ?case
    proof (cases "P a")
      case False
      then show ?thesis using Cons.prems by simp
    next
      case True
      with assms have "\<not> prefix sub (a # s)"
        by (cases sub) auto
      with Cons.prems have "sublist sub s"
        by (simp add: sublist_Cons_right)
      with Cons.IH True show ?thesis by simp
    qed
  qed
qed

lemma sublist_strip:
  assumes "sub \<noteq> []" "\<not> isspace (hd sub)" "\<not> isspace (last sub)"
  shows "sublist sub (strip s) \<longleftrightarrow> sublist sub s"
proof -
  have r: "rev sub \<noteq> []" "\<not> isspace (hd (rev sub))"
    using assms by (simp_all add: hd_rev)
  have "sublist sub (strip s) \<longleftrightarrow>
        sublist (rev sub) (dropWhile isspace (rev (dropWhile isspace s)))"
    unfolding strip_def by (metis sublist_rev rev_rev_ident)
  also have "\<dots> \<longleftrightarrow> sublist (rev sub) (rev (dropWhile isspace s))"
    using r by (rule sublist_dropWhile)
  also have "\<dots> \<longleftrightarrow> sublist sub (dropWhile isspace s)"
    by simp
  also have "\<dots> \<longleftrightarrow> sublist sub s"
    using assms(1,2) by (rule sublist_dropWhile)
  finally show ?thesis .
qed

section \<open>The decision extractor: what the scan returns\<close>

lemma flagship_strip:
  "str_in ''FLAGSHIP'' (upper (strip s)) \<longleftrightarrow> str_in ''FLAGSHIP'' (upper s)"
  unfolding upper_strip str_in_sublist
  by (rule sublist_strip) (simp_all add: isspace_def)

lemma classify_flagship:
  "str_in ''FLAGSHIP'' (upper (last (split CHR '':'' line))) \<Longrightarrow> classify line = ''Flagship''"
  by (simp add: classify_def flagship_strip)

lemma scan_no_decision:
  "\<forall>l\<in>set ls. \<not> str_in ''SPONSOR DECISION:'' (upper l) \<Longrightarrow>
     fst (scan ls category reasoning) = category"
  by (induction ls arbitrary: reasoning) (simp_all add: Let_def)

lemma scan_before_reasoning:
  "\<forall>p\<in>set pre. \<not> str_in ''REASONING:'' (upper p) \<Longrightarrow>
     \<exists>c. scan (pre @ rest) category reasoning = scan rest c reasoning"
  by (induction pre arbitrary: category) (auto simp: Let_def)

lemma scan_keeps_flagship:
  "\<forall>q\<in>set post. str_in ''SPONSOR DECISION:'' (upper q) \<longrightarrow> classify q = ''Flagship'' \<Longrightarrow>
     fst (scan post ''Flagship'' reasoning) = ''Flagship''"
  by (induction post arbitrary: reasoning) (simp_all add: Let_def)

text \<open>
  C2. A transcript none of whose lines contains the marker SPONSOR DECISION: (in any
  case) gets the category Rejected: without a decision marker the extractor never
  answers Flagship or Eligible.
\<close>

theorem no_decision_marker_rejected:
  assumes "\<forall>l\<in>set (split CHR 0x0A research_output).
             \<not> str_in ''SPONSOR DECISION:'' (upper l)"
  shows "fst (extract_tier_and_reasoning research_output) = ''Rejected''"
  unfolding extract_tier_and_reasoning_def using assms by (rule scan_no_decision)

theorem no_decision_marker_rejected_witness:
  "list_all (\<lambda>l. \<not> str_in ''SPONSOR DECISION:'' (upper l))
     (split CHR 0x0A ''RESEARCH SUMMARY:\<newline>Nothing found.\<newline>REASONING: no data'') \<and>
   fst (extract_tier_and_reasoning ''RESEARCH SUMMARY:\<newline>Nothing found.\<newline>REASONING: no data'')
     = ''Rejected''"
proof -
  have h: "\<forall>l\<in>set (split CHR 0x0A ''RESEARCH SUMMARY:\<newline>Nothing found.\<newline>REASONING: no data'').
             \<not> str_in ''SPONSOR DECISION:'' (upper l)"
    by (simp add: upper_def upper_char_def)
  show ?thesis
    using h no_decision_marker_rejected [OF h] by (simp only: list_all_iff)
qed

text \<open>
  C1, as stated, fails: a REASONING: line above the decision line ends the scan before the
  decision line is read, and the category stays Rejected.
\<close>

theorem flagship_after_reasoning_counterexample:
  "split CHR 0x0A ''REASONING: strong brand\<newline>SPONSOR DECISION: Flagship''
     = [''REASONING: strong brand'', ''SPONSOR DECISION: Flagship''] \<and>
   str_in ''SPONSOR DECISION:'' (upper ''SPONSOR DECISION: Flagship'') \<and>
   str_in ''FLAGSHIP'' (upper (last (split CHR '':'' ''SPONSOR DECISION: Flagship''))) \<and>
   fst (extract_tier_and_reasoning ''REASONING: strong brand\<newline>SPONSOR DECISION: Flagship'')
     = ''Rejected''"
  by code_simp

text \<open>
  C1, amended. When a line carries the marker SPONSOR DECISION: (in any case) with FLAGSHIP
  (in any case) after its last colon, no line above it carries the marker REASONING:, and
  every later line that carries the decision marker also has FLAGSHIP after its last colon,
  the category is Flagship. A REASONING: line on or below the decision line does not
  matter.
\<close>

theorem flagship_before_reasoning:
  assumes lines: "split CHR 0x0A research_output = pre @ line # post"
    and pre: "\<forall>p\<in>set pre. \<not> str_in ''REASONING:'' (upper p)"
    and marker: "str_in ''SPONSOR DECISION:'' (upper line)"
    and flagship: "str_in ''FLAGSHIP'' (upper (last (split CHR '':'' line)))"
    and later: "\<forall>q\<in>set post. str_in ''SPONSOR DECISION:'' (upper q) \<longrightarrow>
                 str_in ''FLAGSHIP'' (upper (last (split CHR '':'' q)))"
  shows "fst (extract_tier_and_reasoning research_output) = ''Flagship''"
proof -
  let ?r = "''Unable to parse sponsor decision from research output''"
  from pre obtain c where c: "scan (pre @ line # post) ''Rejected'' ?r = scan (line # post) c ?r"
    using scan_before_reasoning by blast
  have post: "fst (scan post ''Flagship'' ?r) = ''Flagship''"
    using later by (intro scan_keeps_flagship) (auto simp: classify_flagship)
  have "fst (scan (line # post) c ?r) = ''Flagship''"
    using marker post by (simp add: Let_def classify_flagship [OF flagship])
  then show ?thesis
    by (simp add: extract_tier_and_reasoning_def lines c)
qed

theorem flagship_before_reasoning_witness:
  "split CHR 0x0A ''Summary: fine.\<newline>Sponsor Decision: flagship\<newline>REASONING: Leader.''
     = [''Summary: fine.''] @ ''Sponsor Decision: flagship'' # [''REASONING: Leader.''] \<and>
   \<not> str_in ''REASONING:'' (upper ''Summary: fine.'') \<and>
   str_in ''SPONSOR DECISION:'' (upper ''Sponsor Decision: flagship'') \<and>
   str_in ''FLAGSHIP'' (upper (last (split CHR '':'' ''Sponsor Decision: flagship''))) \<and>
   \<not> str_in ''SPONSOR DECISION:'' (upper ''REASONING: Leader.'') \<and>
   fst (extract_tier_and_reasoning
          ''Summary: fine.\<newline>Sponsor Decision: flagship\<newline>REASONING: Leader.'') = ''Flagship''"
proof -
  have h1: "split CHR 0x0A ''Summary: fine.\<newline>Sponsor Decision: flagship\<newline>REASONING: Leader.''
              = [''Summary: fine.''] @ ''Sponsor Decision: flagship'' # [''REASONING: Leader.'']"
    by simp
  have h2: "\<forall>p\<in>set [''Summary: fine.'']. \<not> str_in ''REASONING:'' (upper p)"
    by code_simp
  have h3: "str_in ''SPONSOR DECISION:'' (upper ''Sponsor Decision: flagship'')"
    by code_simp
  have h4: "str_in ''FLAGSHIP'' (upper (last (split CHR '':'' ''Sponsor Decision: flagship'')))"
    by code_simp
  have h5: "\<forall>q\<in>set [''REASONING: Leader.'']. str_in ''SPONSOR DECISION:'' (upper q) \<longrightarrow>
              str_in ''FLAGSHIP'' (upper (last (split CHR '':'' q)))"
    by code_simp
  have h6: "\<not> str_in ''SPONSOR DECISION:'' (upper ''REASONING: Leader.'')"
    by code_simp
  show ?thesis
    using h1 h2 h3 h4 h6 flagship_before_reasoning [OF h1 h2 h3 h4 h5] by simp
qed

text \<open>
  C8, as stated, fails: the reasoning is not exactly the text after the first colon, the
  white space around that text is removed.
\<close>

theorem reasoning_is_stripped_counterexample:
  "split CHR 0x0A ''SPONSOR DECISION: Eligible\<newline>REASONING: Stable finances.\<newline>\<newline>''
     = [''SPONSOR DECISION: Eligible'', ''REASONING: Stable finances.'', [], []] \<and>
   str_in ''REASONING:'' (upper ''REASONING: Stable finances.'') \<and>
   last (split1 CHR '':'' ''REASONING: Stable finances.'') = '' Stable finances.'' \<and>
   snd (extract_tier_and_reasoning
          ''SPONSOR DECISION: Eligible\<newline>REASONING: Stable finances.\<newline>\<newline>'')
     = ''Stable finances.'' \<and>
   ''Stable finances.'' \<noteq> '' Stable finances.''"
  by code_simp

text \<open>
  C8, amended. When the first line that carries the marker REASONING: (in any case) is
  directly followed by a blank line (empty or white space only), the reasoning is the text
  after the first colon of that one line with the white space at both ends removed; no
  continuation line is appended.
\<close>

theorem reasoning_then_blank:
  assumes lines: "split CHR 0x0A research_output = pre @ line # blank # post"
    and pre: "\<forall>p\<in>set pre. \<not> str_in ''REASONING:'' (upper p)"
    and marker: "str_in ''REASONING:'' (upper line)"
    and blank: "strip blank = []"
  shows "snd (extract_tier_and_reasoning research_output) = strip (last (split1 CHR '':'' line))"
proof -
  let ?r = "''Unable to parse sponsor decision from research output''"
  from pre obtain c where
    c: "scan (pre @ line # blank # post) ''Rejected'' ?r = scan (line # blank # post) c ?r"
    using scan_before_reasoning by blast
  show ?thesis
    using marker blank by (simp add: extract_tier_and_reasoning_def lines c Let_def)
qed

theorem reasoning_then_blank_witness:
  "split CHR 0x0A ''Decision below\<newline>Reasoning: Solid brand.  \<newline>  \<newline>more text''
     = [''Decision below''] @ ''Reasoning: Solid brand.  '' # ''  '' # [''more text''] \<and>
   \<not> str_in ''REASONING:'' (upper ''Decision below'') \<and>
   str_in ''REASONING:'' (upper ''Reasoning: Solid brand.  '') \<and>
   strip ''  '' = [] \<and>
   snd (extract_tier_and_reasoning
          ''Decision below\<newline>Reasoning: Solid brand.  \<newline>  \<newline>more text'')
     = strip (last (split1 CHR '':'' ''Reasoning: Solid brand.  '')) \<and>
   strip (last (split1 CHR '':'' ''Reasoning: Solid brand.  '')) = ''Solid brand.''"
proof -
  have h1: "split CHR 0x0A ''Decision below\<newline>Reasoning: Solid brand.  \<newline>  \<newline>more text''
              = [''Decision below''] @ ''Reasoning: Solid brand.  '' # ''  '' # [''more text'']"
    by simp
  have h2: "\<forall>p\<in>set [''Decision below'']. \<not> str_in ''REASONING:'' (upper p)"
    by code_simp
  have h3: "str_in ''REASONING:'' (upper ''Reasoning: Solid brand.  '')"
    by code_simp
  have h4: "strip ''  '' = []"
    by (simp add: strip_def isspace_def)
  have v: "strip (last (split1 CHR '':'' ''Reasoning: Solid brand.  '')) = ''Solid brand.''"
    by (simp add: split1_def strip_def isspace_def)
  show ?thesis
    using h1 h2 h3 h4 v reasoning_then_blank [OF h1 h2 h3 h4] by simp
qed

section \<open>Ensuring columns\<close>

lemma update_cell_append_header:
  "update_cell ws (Suc 0) (Suc (length (header_row ws))) c = Some (ws\<lparr>header_row := header_row ws @ [c]\<rparr>)"
  by (simp add: update_cell_def set_cell_def pad_def)

lemma add_columns_present:
  "set names \<subseteq> set headers \<Longrightarrow> add_columns ws headers names = (True, ws)"
  by (induction names) simp_all

lemma add_columns_appends:
  "\<exists>new. add_columns ws (header_row ws) names = (True, ws\<lparr>header_row := header_row ws @ new\<rparr>)
     \<and> set new \<inter> set (header_row ws) = {}
     \<and> set names \<subseteq> set (header_row ws) \<union> set new"
proof (induction names arbitrary: ws)
  case Nil
  show ?case by (rule exI [of _ "[]"]) simp
next
  case (Cons c names)
  show ?case
  proof (cases "c \<in> set (header_row ws)")
    case True
    from Cons.IH [of ws] obtain new where
      "add_columns ws (header_row ws) names = (True, ws\<lparr>header_row := header_row ws @ new\<rparr>)"
      "set new \<inter> set (header_row ws) = {}" "set names \<subseteq> set (header_row ws) \<union> set new"
      by blast
    with True show ?thesis
      by (intro exI [of _ new]) simp
  next
    case False
    let ?ws1 = "ws\<lparr>header_row := header_row ws @ [c]\<rparr>"
    from Cons.IH [of ?ws1] obtain new where
      n: "add_columns ?ws1 (header_row ?ws1) names = (True, ?ws1\<lparr>header_row := header_row ?ws1 @ new\<rparr>)"
      "set new \<inter> set (header_row ?ws1) = {}" "set names \<subseteq> set (header_row ?ws1) \<union> set new"
      by blast
    have "add_columns ws (header_row ws) (c # names) = add_columns ?ws1 (header_row ?ws1) names"
      using False by (simp add: update_cell_append_header)
    with n False show ?thesis
      by (intro exI [of _ "c # new"]) auto
  qed
qed

text \<open>
  C9. \<open>add_columns_if_missing\<close> is idempotent: a second call with the same names changes
  nothing, so the header row after two calls is the header row after one; and a column
  that is already in the header occurs as often afterwards as before, it is never
  appended again.
\<close>

theorem add_columns_if_missing_idempotent:
  "add_columns_if_missing (snd (add_columns_if_missing ws names)) names
     = (True, snd (add_columns_if_missing ws names)) \<and>
   header_row (snd (add_columns_if_missing (snd (add_columns_if_missing ws names)) names))
     = header_row (snd (add_columns_if_missing ws names)) \<and>
   (\<forall>c\<in>set (header_row ws).
      count_list (header_row (snd (add_columns_if_missing ws names))) c
        = count_list (header_row ws) c)"
proof -
  obtain new where
    a: "add_columns ws (header_row ws) names = (True, ws\<lparr>header_row := header_row ws @ new\<rparr>)"
    and d: "set new \<inter> set (header_row ws) = {}"
    and s: "set names \<subseteq> set (header_row ws) \<union> set new"
    using add_columns_appends by blast
  let ?ws' = "ws\<lparr>header_row := header_row ws @ new\<rparr>"
  have once: "snd (add_columns_if_missing ws names) = ?ws'"
    by (simp add: add_columns_if_missing_def a)
  have "set names \<subseteq> set (header_row ?ws')"
    using s by auto
  then have twice: "add_columns_if_missing ?ws' names = (True, ?ws')"
    unfolding add_columns_if_missing_def by (rule add_columns_present)
  have "count_list (header_row ?ws') c = count_list (header_row ws) c"
    if "c \<in> set (header_row ws)" for c
  proof -
    from that d have "c \<notin> set new" by auto
    then show ?thesis by simp
  qed
  with once twice show ?thesis by simp
qed

theorem add_columns_if_missing_idempotent_witness:
  "header_row (snd (add_columns_if_missing
       \<lparr>header_row = [''Timestamp'', ''Decision''], data_rows = []\<rparr>
       [''Research Notes'', ''Decision'']))
     = [''Timestamp'', ''Decision'', ''Research Notes''] \<and>
   add_columns_if_missing (snd (add_columns_if_missing
       \<lparr>header_row = [''Timestamp'', ''Decision''], data_rows = []\<rparr>
       [''Research Notes'', ''Decision''])) [''Research Notes'', ''Decision'']
     = (True, \<lparr>header_row = [''Timestamp'', ''Decision'', ''Research Notes''], data_rows = []\<rparr>) \<and>
   list_all (\<lambda>c. count_list [''Timestamp'', ''Decision'', ''Research Notes''] c
                   = count_list [''Timestamp'', ''Decision''] c)
     [''Timestamp'', ''Decision'']"
proof -
  have v: "snd (add_columns_if_missing
       \<lparr>header_row = [''Timestamp'', ''Decision''], data_rows = []\<rparr>
       [''Research Notes'', ''Decision''])
     = \<lparr>header_row = [''Timestamp'', ''Decision'', ''Research Notes''], data_rows = []\<rparr>"
    by (simp add: add_columns_if_missing_def update_cell_def set_cell_def pad_def)
  show ?thesis
    using add_columns_if_missing_idempotent
      [of "\<lparr>header_row = [''Timestamp'', ''Decision''], data_rows = []\<rparr>"
          "[''Research Notes'', ''Decision'']"]
    unfolding v by simp
qed

section \<open>Unprocessed records\<close>

lemma unprocessed_from_blank:
  "r \<in> set (unprocessed_from i records) \<Longrightarrow>
     strip (dict_get (row_fields r) ''Research Notes'' []) = [] \<and>
     strip (dict_get (row_fields r) ''Decision'' []) = []"
  by (induction records arbitrary: i) (auto simp: Let_def split: if_splits)

text \<open>
  C7, amended. Every record returned by \<open>get_unprocessed_records\<close> has a Research Notes
  field and a Decision field that are empty or white space only (a missing field counts
  as empty): no returned record has a Decision field with a character that is not white
  space.
\<close>

theorem unprocessed_records_are_blank:
  "\<forall>r\<in>set (get_unprocessed_records ws).
     strip (dict_get (row_fields r) ''Research Notes'' []) = [] \<and>
     strip (dict_get (row_fields r) ''Decision'' []) = []"
  unfolding get_unprocessed_records_def using unprocessed_from_blank by blast

text \<open>
  C7, as stated, fails: the fields are compared after \<open>strip\<close>, so a record whose
  Decision cell holds one space, a string that is not empty, is returned.
\<close>

theorem whitespace_decision_counterexample:
  "map (\<lambda>r. (key_row_index r, dict_get (row_fields r) ''Company Name'' [],
              dict_get (row_fields r) ''Decision'' []))
     (get_unprocessed_records
        \<lparr>header_row = [''Timestamp'', ''Company Name'', ''Research Notes'', ''Decision''],
         data_rows = [[''2024-01-05'', ''Acme'', [], '' '']]\<rparr>)
     = [(2, ''Acme'', '' '')] \<and> '' '' \<noteq> ([] :: string)"
  by code_simp

theorem unprocessed_records_are_blank_witness:
  "get_unprocessed_records
        \<lparr>header_row = [''Timestamp'', ''Company Name'', ''Research Notes'', ''Decision''],
         data_rows = [[''2024-01-05'', ''Acme'', [], '' ''], [''2024-01-06'', ''Beta'', ''notes'', ''Eligible Sponsor: ok'']]\<rparr> \<noteq> [] \<and>
   list_all (\<lambda>r. strip (dict_get (row_fields r) ''Research Notes'' []) = [] \<and>
                 strip (dict_get (row_fields r) ''Decision'' []) = [])
     (get_unprocessed_records
        \<lparr>header_row = [''Timestamp'', ''Company Name'', ''Research Notes'', ''Decision''],
         data_rows = [[''2024-01-05'', ''Acme'', [], '' ''], [''2024-01-06'', ''Beta'', ''notes'', ''Eligible Sponsor: ok'']]\<rparr>)"
proof -
  have n: "map key_row_index (get_unprocessed_records
        \<lparr>header_row = [''Timestamp'', ''Company Name'', ''Research Notes'', ''Decision''],
         data_rows = [[''2024-01-05'', ''Acme'', [], '' ''], [''2024-01-06'', ''Beta'', ''notes'', ''Eligible Sponsor: ok'']]\<rparr>) = [2]"
    by code_simp
  show ?thesis
    using n unprocessed_records_are_blank
      [of "\<lparr>header_row = [''Timestamp'', ''Company Name'', ''Research Notes'', ''Decision''],
         data_rows = [[''2024-01-05'', ''Acme'', [], '' ''], [''2024-01-06'', ''Beta'', ''notes'', ''Eligible Sponsor: ok'']]\<rparr>"]
    unfolding list_all_iff by auto
qed

text \<open>
  C4 does not hold of the code. The row index is the position in the list that
  \<open>get_all_records\<close> has already filtered, plus 2. Below, sheet row 2 has no timestamp and
  is filtered out; the record of Acme sits in sheet row 3 and is returned with the row
  index 2, and the run then writes its notes and decision into row 2.
\<close>

theorem row_index_shifted_by_filtered_row:
  "map (\<lambda>r. (dict_get (row_fields r) ''Company Name'' [], key_row_index r))
     (get_unprocessed_records
        \<lparr>header_row = [''Timestamp'', ''Company Name'', ''Research Notes'', ''Decision''],
         data_rows = [[[], ''Ghost'', [], []], [''2024-01-05'', ''Acme'', [], []]]\<rparr>)
     = [(''Acme'', 2)] \<and>
   data_rows \<lparr>header_row = [''Timestamp'', ''Company Name'', ''Research Notes'', ''Decision''],
         data_rows = [[[], ''Ghost'', [], []], [''2024-01-05'', ''Acme'', [], []]]\<rparr> ! (3 - 2)
     = [''2024-01-05'', ''Acme'', [], []] \<and>
   data_rows (fst (process_unprocessed_records (\<lambda>prompt. Inr ''SPONSOR DECISION: Eligible\<newline>REASONING: Fine.'')
        \<lparr>header_row = [''Timestamp'', ''Company Name'', ''Research Notes'', ''Decision''],
         data_rows = [[[], ''Ghost'', [], []], [''2024-01-05'', ''Acme'', [], []]]\<rparr> None))
     = [[[], ''Ghost'', ''SPONSOR DECISION: Eligible\<newline>REASONING: Fine.'', ''Eligible Sponsor: Fine.''],
        [''2024-01-05'', ''Acme'', [], []]]"
  by code_simp

section \<open>The pipeline\<close>

lemma update_cell_header:
  "2 \<le> row \<Longrightarrow> update_cell ws row col v = Some ws' \<Longrightarrow> header_row ws' = header_row ws"
  unfolding update_cell_def Let_def by (cases "col = 0") auto

lemma update_fields_header:
  "2 \<le> row \<Longrightarrow> header_row (snd (update_fields ws row headers updates)) = header_row ws"
proof (induction updates arbitrary: ws)
  case Nil
  then show ?case by simp
next
  case (Cons u updates)
  obtain field v where u: "u = (field, v)" by (cases u)
  show ?case
  proof (cases "field \<in> set headers")
    case False
    then show ?thesis using Cons by (simp add: u)
  next
    case True
    show ?thesis
    proof (cases "update_cell ws row (index headers field + 1) v")
      case None
      then show ?thesis using True by (simp add: u)
    next
      case (Some ws')
      then have "header_row ws' = header_row ws"
        using Cons.prems update_cell_header by blast
      moreover have "header_row (snd (update_fields ws' row headers updates)) = header_row ws'"
        using Cons by blast
      ultimately show ?thesis using True Some by (simp add: u)
    qed
  qed
qed

lemma update_record_header:
  "2 \<le> row \<Longrightarrow> header_row (snd (update_record ws row updates)) = header_row ws"
  unfolding update_record_def by (rule update_fields_header)

lemma process_records_Cons:
  "process_records client ws (record # rest) =
     (let step = update_record ws (key_row_index record)
                   [(''Research Notes'', fst (research_and_grade_company client (row_fields record))),
                    (''Decision'', snd (research_and_grade_company client (row_fields record)))];
          run = process_records client (snd step) rest
      in (fst run,
          \<lparr>it_company = dict_get (row_fields record) ''Company Name'' ''Unknown'',
           it_row = key_row_index record,
           it_notes = fst (research_and_grade_company client (row_fields record)),
           it_decision = snd (research_and_grade_company client (row_fields record)),
           it_success = fst step\<rparr> # snd run))"
  by (simp add: Let_def split_beta)

lemma process_records_header:
  "\<forall>r\<in>set records. 2 \<le> key_row_index r \<Longrightarrow>
     header_row (fst (process_records client ws records)) = header_row ws"
proof (induction records arbitrary: ws)
  case Nil
  then show ?case by simp
next
  case (Cons r records)
  then show ?case
    by (simp add: process_records_Cons Let_def update_record_header del: process_records.simps(2))
qed

lemma unprocessed_from_rows:
  "r \<in> set (unprocessed_from i records) \<Longrightarrow>
     i + 2 \<le> key_row_index r \<and> key_row_index r < i + 2 + length records"
proof (induction records arbitrary: i)
  case Nil
  then show ?case by simp
next
  case (Cons a records)
  from Cons.prems have "r = \<lparr>row_fields = a, key_row_index = i + 2\<rparr> \<or>
      r \<in> set (unprocessed_from (i + 1) records)"
    by (simp add: Let_def split: if_splits)
  then show ?case
  proof
    assume "r = \<lparr>row_fields = a, key_row_index = i + 2\<rparr>"
    then show ?thesis by simp
  next
    assume "r \<in> set (unprocessed_from (i + 1) records)"
    from Cons.IH [OF this] show ?thesis by simp
  qed
qed

lemma slice_to_subset: "set (slice_to xs n) \<subseteq> set xs"
  unfolding slice_to_def by (auto dest: in_set_takeD)

lemma process_records_iterations:
  "map (\<lambda>it. (it_row it, it_notes it, it_decision it)) (snd (process_records client ws records))
     = map (\<lambda>r. (key_row_index r, research_and_grade_company client (row_fields r))) records"
proof (induction records arbitrary: ws)
  case Nil
  show ?case by simp
next
  case (Cons r records)
  then show ?case
    by (simp add: process_records_Cons Let_def del: process_records.simps(2))
qed

lemma unprocessed_rows_ge2:
  "\<forall>r\<in>set (get_unprocessed_records ws). 2 \<le> key_row_index r"
proof
  fix r
  assume "r \<in> set (get_unprocessed_records ws)"
  then have "0 + 2 \<le> key_row_index r"
    unfolding get_unprocessed_records_def using unprocessed_from_rows by blast
  then show "2 \<le> key_row_index r" by simp
qed

lemma process_unprocessed_header:
  "header_row (fst (process_unprocessed_records client ws max_records)) = header_row ws"
proof -
  note u = unprocessed_rows_ge2 [of ws]
  have s: "\<forall>r\<in>set (slice_to (get_unprocessed_records ws) n). 2 \<le> key_row_index r" for n
    using u slice_to_subset [of "get_unprocessed_records ws" n] by blast
  show ?thesis
  proof (cases max_records)
    case None
    then show ?thesis
      by (simp add: process_unprocessed_records_def Let_def process_records_header [OF u])
  next
    case (Some n)
    then show ?thesis
      by (simp add: process_unprocessed_records_def Let_def process_records_header [OF u]
          process_records_header [OF s])
  qed
qed

lemma process_records_append:
  "process_records client ws (xs @ ys) =
     (fst (process_records client (fst (process_records client ws xs)) ys),
      snd (process_records client ws xs)
        @ snd (process_records client (fst (process_records client ws xs)) ys))"
proof (induction xs arbitrary: ws)
  case Nil
  show ?case by simp
next
  case (Cons x xs)
  show ?case
    unfolding append_Cons process_records_Cons Let_def Cons.IH by simp
qed

lemma process_records_length:
  "length (snd (process_records client ws records)) = length records"
proof (induction records arbitrary: ws)
  case Nil
  show ?case by simp
next
  case (Cons r records)
  then show ?case
    by (simp add: process_records_Cons Let_def del: process_records.simps(2))
qed

lemma update_fields_absent:
  "list_all (\<lambda>u. fst u \<notin> set headers) updates \<Longrightarrow>
     update_fields ws row headers updates = (True, ws)"
proof (induction updates)
  case Nil
  show ?case by simp
next
  case (Cons u updates)
  obtain field v where u: "u = (field, v)" by (cases u)
  from Cons show ?case by (simp add: u)
qed

lemma process_records_no_columns:
  assumes "''Research Notes'' \<notin> set (header_row ws)" "''Decision'' \<notin> set (header_row ws)"
  shows "fst (process_records client ws records) = ws \<and>
         list_all it_success (snd (process_records client ws records))"
proof (induction records)
  case Nil
  show ?case by simp
next
  case (Cons r records)
  have "update_record ws (key_row_index r)
          [(''Research Notes'', fst (research_and_grade_company client (row_fields r))),
           (''Decision'', snd (research_and_grade_company client (row_fields r)))] = (True, ws)"
    unfolding update_record_def using assms by (intro update_fields_absent) simp
  with Cons show ?case
    by (simp add: process_records_Cons Let_def del: process_records.simps(2))
qed

lemma run_without_columns_changes_nothing:
  assumes "''Research Notes'' \<notin> set (header_row ws)" "''Decision'' \<notin> set (header_row ws)"
  shows "fst (process_unprocessed_records client ws max_records) = ws \<and>
         list_all it_success (snd (process_unprocessed_records client ws max_records))"
proof (cases max_records)
  case None
  then show ?thesis
    using process_records_no_columns [OF assms]
    by (simp add: process_unprocessed_records_def Let_def)
next
  case (Some n)
  then show ?thesis
    using process_records_no_columns [OF assms]
    by (simp add: process_unprocessed_records_def Let_def)
qed

lemma max_records_caps_iterations:
  assumes "0 < n"
  shows "map (\<lambda>it. (it_row it, it_notes it, it_decision it))
           (snd (process_unprocessed_records client ws (Some n)))
         = map (\<lambda>r. (key_row_index r, research_and_grade_company client (row_fields r)))
             (take (nat n) (get_unprocessed_records ws))"
proof (cases "get_unprocessed_records ws = []")
  case True
  then show ?thesis by (simp add: process_unprocessed_records_def)
next
  case False
  have "slice_to (get_unprocessed_records ws) n = take (nat n) (get_unprocessed_records ws)"
    using assms by (simp add: slice_to_def)
  then show ?thesis
    using False assms
    by (simp add: process_unprocessed_records_def Let_def process_records_iterations)
qed

text \<open>
  What the loop does with a research call that raises: \<open>research_and_grade_company\<close>
  returns the notes "Research failed: " followed by the text of the error, and exactly the
  decision "Rejected Sponsor: Unable to complete research due to technical error". In a
  batch, the records before it are processed, these two values are handed to
  \<open>update_record\<close> at the row index of the record, and the records after it are processed
  on the sheet that call leaves: there is one iteration for every record, whatever the
  research calls do. Which cells \<open>update_record\<close> then writes is a matter of the row index
  and of the header.
\<close>

theorem research_failure_written_and_batch_continues:
  assumes fail:
    "client (build_research_prompt
       (dict_get (row_fields r) ''Company Name'' ''Unknown Company'')
       (dict_get (row_fields r) ''Website URL'' [])
       (dict_get (row_fields r) ''Company Description'' [])) = Inl e"
  shows "research_and_grade_company client (row_fields r) =
           (''Research failed: '' @ e,
            ''Rejected Sponsor: Unable to complete research due to technical error'') \<and>
         process_records client ws (pre @ r # post) =
           (let before = process_records client ws pre;
                written = update_record (fst before) (key_row_index r)
                  [(''Research Notes'', ''Research failed: '' @ e),
                   (''Decision'',
                    ''Rejected Sponsor: Unable to complete research due to technical error'')];
                after = process_records client (snd written) post
            in (fst after,
                snd before @
                \<lparr>it_company = dict_get (row_fields r) ''Company Name'' ''Unknown'',
                 it_row = key_row_index r,
                 it_notes = ''Research failed: '' @ e,
                 it_decision =
                   ''Rejected Sponsor: Unable to complete research due to technical error'',
                 it_success = fst written\<rparr> # snd after)) \<and>
         length (snd (process_records client ws (pre @ r # post)))
           = length pre + 1 + length post"
proof -
  have g: "research_and_grade_company client (row_fields r) =
           (''Research failed: '' @ e,
            ''Rejected Sponsor: Unable to complete research due to technical error'')"
    unfolding research_and_grade_company_def Let_def fail by simp
  have p: "process_records client ws (pre @ r # post) =
           (let before = process_records client ws pre;
                written = update_record (fst before) (key_row_index r)
                  [(''Research Notes'', ''Research failed: '' @ e),
                   (''Decision'',
                    ''Rejected Sponsor: Unable to complete research due to technical error'')];
                after = process_records client (snd written) post
            in (fst after,
                snd before @
                \<lparr>it_company = dict_get (row_fields r) ''Company Name'' ''Unknown'',
                 it_row = key_row_index r,
                 it_notes = ''Research failed: '' @ e,
                 it_decision =
                   ''Rejected Sponsor: Unable to complete research due to technical error'',
                 it_success = fst written\<rparr> # snd after))"
    unfolding process_records_append process_records_Cons g Let_def by simp
  have "length (snd (process_records client ws (pre @ r # post))) = length (pre @ r # post)"
    by (rule process_records_length)
  then have l: "length (snd (process_records client ws (pre @ r # post)))
      = length pre + 1 + length post"
    by simp
  from g p l show ?thesis
    by (intro conjI)
qed

theorem research_failure_written_and_batch_continues_witness:
  "(\<lambda>prompt. Inl ''timed out'')
     (build_research_prompt
       (dict_get (row_fields \<lparr>row_fields = [''Company Name'' \<mapsto> ''Acme''], key_row_index = 2\<rparr>)
          ''Company Name'' ''Unknown Company'')
       (dict_get (row_fields \<lparr>row_fields = [''Company Name'' \<mapsto> ''Acme''], key_row_index = 2\<rparr>)
          ''Website URL'' [])
       (dict_get (row_fields \<lparr>row_fields = [''Company Name'' \<mapsto> ''Acme''], key_row_index = 2\<rparr>)
          ''Company Description'' [])) = (Inl ''timed out'' :: string + string) \<and>
   research_and_grade_company (\<lambda>prompt. Inl ''timed out'') [''Company Name'' \<mapsto> ''Acme''] =
     (''Research failed: timed out'',
      ''Rejected Sponsor: Unable to complete research due to technical error'') \<and>
   length (snd (process_records (\<lambda>prompt. Inl ''timed out'')
       \<lparr>header_row = [''Timestamp'', ''Company Name'', ''Research Notes'', ''Decision''],
        data_rows = [[''t1'', ''Acme''], [''t2'', ''Beta'']]\<rparr>
       ([] @ \<lparr>row_fields = [''Company Name'' \<mapsto> ''Acme''], key_row_index = 2\<rparr>
          # [\<lparr>row_fields = [''Company Name'' \<mapsto> ''Beta''], key_row_index = 3\<rparr>]))) = 2"
proof -
  note t = research_failure_written_and_batch_continues
    [where client = "\<lambda>prompt. Inl ''timed out''"
       and r = "\<lparr>row_fields = [''Company Name'' \<mapsto> ''Acme''], key_row_index = 2\<rparr>"
       and e = "''timed out''"
       and ws = "\<lparr>header_row = [''Timestamp'', ''Company Name'', ''Research Notes'', ''Decision''],
        data_rows = [[''t1'', ''Acme''], [''t2'', ''Beta'']]\<rparr>" and pre = "[]"
       and post = "[\<lparr>row_fields = [''Company Name'' \<mapsto> ''Beta''], key_row_index = 3\<rparr>]",
     OF refl]
  have g: "research_and_grade_company (\<lambda>prompt. Inl ''timed out'') [''Company Name'' \<mapsto> ''Acme''] =
     (''Research failed: timed out'',
      ''Rejected Sponsor: Unable to complete research due to technical error'')"
    using t [THEN conjunct1] by simp
  have l: "length (snd (process_records (\<lambda>prompt. Inl ''timed out'')
       \<lparr>header_row = [''Timestamp'', ''Company Name'', ''Research Notes'', ''Decision''],
        data_rows = [[''t1'', ''Acme''], [''t2'', ''Beta'']]\<rparr>
       ([] @ \<lparr>row_fields = [''Company Name'' \<mapsto> ''Acme''], key_row_index = 2\<rparr>
          # [\<lparr>row_fields = [''Company Name'' \<mapsto> ''Beta''], key_row_index = 3\<rparr>]))) = 2"
    using t [THEN conjunct2, THEN conjunct2] by (simp del: process_records.simps)
  from g l show ?thesis
    by (intro conjI) simp_all
qed

text \<open>
  The writer itself: when the header has both columns, \<open>update_record\<close> at a row index
  from 2 on puts the two values into the cells of that row under the first column of each
  name. So a research failure is written into the row at the row index of the record;
  whether that is the row of the record is what the row index decides.
\<close>

lemma set_cell_written:
  "0 < col \<Longrightarrow> set_cell r col v ! (col - 1) = v \<and> col \<le> length (set_cell r col v)"
  by (simp add: set_cell_def pad_def)

lemma set_cell_other:
  "j < length r \<Longrightarrow> j \<noteq> col - 1 \<Longrightarrow> set_cell r col v ! j = r ! j \<and> j < length (set_cell r col v)"
  by (simp add: set_cell_def pad_def nth_append)

lemma update_cell_cell:
  assumes "2 \<le> row"
  obtains ws' where "update_cell ws row (Suc c) v = Some ws'"
    and "header_row ws' = header_row ws"
    and "row - 2 < length (data_rows ws')"
    and "data_rows ws' ! (row - 2) ! c = v"
    and "c < length (data_rows ws' ! (row - 2))"
    and "\<And>j. row - 2 < length (data_rows ws) \<Longrightarrow> j < length (data_rows ws ! (row - 2)) \<Longrightarrow>
           j \<noteq> c \<Longrightarrow> data_rows ws' ! (row - 2) ! j = data_rows ws ! (row - 2) ! j"
proof -
  let ?rows = "data_rows ws @ replicate (row - 1 - length (data_rows ws)) []"
  let ?ws' = "ws\<lparr>data_rows := ?rows[row - 2 := set_cell (?rows ! (row - 2)) (Suc c) v]\<rparr>"
  have len: "row - 2 < length ?rows"
    using assms by simp
  have u: "update_cell ws row (Suc c) v = Some ?ws'"
    using assms by (simp add: update_cell_def Let_def)
  have r: "data_rows ?ws' ! (row - 2) = set_cell (?rows ! (row - 2)) (Suc c) v"
    using len by simp
  have w: "set_cell (?rows ! (row - 2)) (Suc c) v ! c = v \<and>
           Suc c \<le> length (set_cell (?rows ! (row - 2)) (Suc c) v)"
    using set_cell_written [of "Suc c" "?rows ! (row - 2)" v] by simp
  show thesis
  proof (rule that [of ?ws'])
    show "update_cell ws row (Suc c) v = Some ?ws'" by (rule u)
    show "header_row ?ws' = header_row ws" by simp
    show "row - 2 < length (data_rows ?ws')" using len by simp
    show "data_rows ?ws' ! (row - 2) ! c = v"
      unfolding r using w by blast
    show "c < length (data_rows ?ws' ! (row - 2))"
      unfolding r using w by simp
    show "data_rows ?ws' ! (row - 2) ! j = data_rows ws ! (row - 2) ! j"
      if "row - 2 < length (data_rows ws)" "j < length (data_rows ws ! (row - 2))" "j \<noteq> c"
      for j
    proof -
      from that(1) have "?rows ! (row - 2) = data_rows ws ! (row - 2)"
        by (simp add: nth_append)
      then show ?thesis
        unfolding r using set_cell_other [of j "data_rows ws ! (row - 2)" "Suc c" v] that by simp
    qed
  qed
qed

lemma index_nth: "x \<in> set h \<Longrightarrow> index h x < length h \<and> h ! index h x = x"
  by (induction h) auto

lemma update_record_writes_cells:
  assumes rn: "''Research Notes'' \<in> set (header_row ws)"
    and d: "''Decision'' \<in> set (header_row ws)"
    and row: "2 \<le> row"
  shows "fst (update_record ws row [(''Research Notes'', a), (''Decision'', b)]) \<and>
         data_rows (snd (update_record ws row [(''Research Notes'', a), (''Decision'', b)]))
           ! (row - 2) ! index (header_row ws) ''Research Notes'' = a \<and>
         data_rows (snd (update_record ws row [(''Research Notes'', a), (''Decision'', b)]))
           ! (row - 2) ! index (header_row ws) ''Decision'' = b"
proof -
  let ?h = "header_row ws"
  let ?i = "index ?h ''Research Notes''" and ?j = "index ?h ''Decision''"
  have hi: "?h ! ?i = ''Research Notes''"
    using index_nth [OF rn] by simp
  have hj: "?h ! ?j = ''Decision''"
    using index_nth [OF d] by simp
  have ij: "?i \<noteq> ?j"
  proof
    assume "?i = ?j"
    with hi hj have "''Research Notes'' = ''Decision''" by simp
    then show False by simp
  qed
  from update_cell_cell [OF row, where ws = ws and c = ?i and v = a] obtain ws1 where
    u1: "update_cell ws row (Suc ?i) a = Some ws1"
    and r1: "row - 2 < length (data_rows ws1)"
    and c1: "data_rows ws1 ! (row - 2) ! ?i = a"
    and l1: "?i < length (data_rows ws1 ! (row - 2))"
    by blast
  from update_cell_cell [OF row, where ws = ws1 and c = ?j and v = b] obtain ws2 where
    u2: "update_cell ws1 row (Suc ?j) b = Some ws2"
    and c2: "data_rows ws2 ! (row - 2) ! ?j = b"
    and o2: "\<And>k. row - 2 < length (data_rows ws1) \<Longrightarrow> k < length (data_rows ws1 ! (row - 2)) \<Longrightarrow>
           k \<noteq> ?j \<Longrightarrow> data_rows ws2 ! (row - 2) ! k = data_rows ws1 ! (row - 2) ! k"
    by blast
  have res: "update_record ws row [(''Research Notes'', a), (''Decision'', b)] = (True, ws2)"
    using rn d u1 u2 by (simp add: update_record_def)
  have "data_rows ws2 ! (row - 2) ! ?i = data_rows ws1 ! (row - 2) ! ?i"
    using r1 l1 ij by (rule o2)
  with c1 c2 show ?thesis
    unfolding res by simp
qed

lemma research_failure_cells:
  assumes fail:
    "client (build_research_prompt
       (dict_get (row_fields r) ''Company Name'' ''Unknown Company'')
       (dict_get (row_fields r) ''Website URL'' [])
       (dict_get (row_fields r) ''Company Description'' [])) = Inl e"
    and rn: "''Research Notes'' \<in> set (header_row ws)"
    and d: "''Decision'' \<in> set (header_row ws)"
    and row: "2 \<le> key_row_index r"
  shows "data_rows (fst (process_records client ws [r])) ! (key_row_index r - 2)
           ! index (header_row ws) ''Research Notes'' = ''Research failed: '' @ e \<and>
         data_rows (fst (process_records client ws [r])) ! (key_row_index r - 2)
           ! index (header_row ws) ''Decision''
           = ''Rejected Sponsor: Unable to complete research due to technical error''"
proof -
  have g: "research_and_grade_company client (row_fields r) =
           (''Research failed: '' @ e,
            ''Rejected Sponsor: Unable to complete research due to technical error'')"
    unfolding research_and_grade_company_def Let_def fail by simp
  have "fst (process_records client ws [r]) =
        snd (update_record ws (key_row_index r)
          [(''Research Notes'', ''Research failed: '' @ e),
           (''Decision'',
            ''Rejected Sponsor: Unable to complete research due to technical error'')])"
    unfolding process_records_Cons g Let_def by simp
  then show ?thesis
    using update_record_writes_cells [OF rn d row] by simp
qed

text \<open>
  C3 does not hold of the code. The research call for Acme raises; the notes and the
  decision of the failure are the ones the claim names, and the batch goes on, but they are
  not written for that record. On the first sheet Acme sits in sheet row 3 behind a row
  that \<open>get_all_records\<close> filters out, its row index is 2, and the text lands in row 2
  while the cells of Acme stay empty. On the second sheet the header has neither column,
  and nothing is written at all, although the update is reported as a success.
\<close>

theorem research_failure_written_to_other_row:
  "process_unprocessed_records (\<lambda>prompt. Inl ''timed out'')
     \<lparr>header_row = [''Timestamp'', ''Company Name'', ''Research Notes'', ''Decision''],
      data_rows = [[[], ''Ghost'', [], []], [''2024-01-05'', ''Acme'', [], []]]\<rparr>
     None
   = (\<lparr>header_row = [''Timestamp'', ''Company Name'', ''Research Notes'', ''Decision''],
       data_rows =
         [[[], ''Ghost'', ''Research failed: timed out'',
           ''Rejected Sponsor: Unable to complete research due to technical error''],
          [''2024-01-05'', ''Acme'', [], []]]\<rparr>,
      [\<lparr>it_company = ''Acme'', it_row = 2,
        it_notes = ''Research failed: timed out'',
        it_decision = ''Rejected Sponsor: Unable to complete research due to technical error'',
        it_success = True\<rparr>]) \<and>
   process_unprocessed_records (\<lambda>prompt. Inl ''timed out'')
     \<lparr>header_row = [''Timestamp'', ''Company Name''],
      data_rows = [[''2024-01-05'', ''Acme'']]\<rparr>
     None
   = (\<lparr>header_row = [''Timestamp'', ''Company Name''],
       data_rows = [[''2024-01-05'', ''Acme'']]\<rparr>,
      [\<lparr>it_company = ''Acme'', it_row = 2,
        it_notes = ''Research failed: timed out'',
        it_decision = ''Rejected Sponsor: Unable to complete research due to technical error'',
        it_success = True\<rparr>])"
  by code_simp

text \<open>
  C5 does not hold of the code. The run never calls \<open>setup_required_columns\<close>: on a sheet
  whose header has neither column it researches the record, appends no column, writes
  nothing, reports the update as a success and leaves the whole sheet as it was. The
  handler operation that the run leaves out would have appended both columns.
\<close>

theorem run_without_columns_writes_nothing:
  "''Research Notes'' \<notin> set [''Timestamp'', ''Company Name''] \<and>
   ''Decision'' \<notin> set [''Timestamp'', ''Company Name''] \<and>
   setup_required_columns
     \<lparr>header_row = [''Timestamp'', ''Company Name''], data_rows = [[''2024-01-05'', ''Acme'']]\<rparr>
   = (True, \<lparr>header_row = [''Timestamp'', ''Company Name'', ''Research Notes'', ''Decision''],
             data_rows = [[''2024-01-05'', ''Acme'']]\<rparr>) \<and>
   process_unprocessed_records (\<lambda>prompt. Inr ''SPONSOR DECISION: Eligible\<newline>REASONING: Fine.'')
     \<lparr>header_row = [''Timestamp'', ''Company Name''], data_rows = [[''2024-01-05'', ''Acme'']]\<rparr>
     None
   = (\<lparr>header_row = [''Timestamp'', ''Company Name''], data_rows = [[''2024-01-05'', ''Acme'']]\<rparr>,
      [\<lparr>it_company = ''Acme'', it_row = 2,
        it_notes = ''SPONSOR DECISION: Eligible\<newline>REASONING: Fine.'',
        it_decision = ''Eligible Sponsor: Fine.'', it_success = True\<rparr>])"
  by code_simp

text \<open>
  In general the run, \<open>process_unprocessed_records\<close>, never changes the header row, whereas
  the handler operation \<open>setup_required_columns\<close> succeeds, keeps the present header as a
  prefix and leaves "Research Notes" and "Decision" in the header, appended when they were
  absent.
\<close>

theorem run_keeps_header_setup_appends:
  "header_row (fst (process_unprocessed_records client ws max_records)) = header_row ws \<and>
   fst (setup_required_columns ws) \<and>
   prefix (header_row ws) (header_row (snd (setup_required_columns ws))) \<and>
   ''Research Notes'' \<in> set (header_row (snd (setup_required_columns ws))) \<and>
   ''Decision'' \<in> set (header_row (snd (setup_required_columns ws)))"
proof -
  obtain new where
    a: "add_columns ws (header_row ws) [''Research Notes'', ''Decision'']
          = (True, ws\<lparr>header_row := header_row ws @ new\<rparr>)"
    and s: "set [''Research Notes'', ''Decision''] \<subseteq> set (header_row ws) \<union> set new"
    using add_columns_appends by blast
  have "setup_required_columns ws = (True, ws\<lparr>header_row := header_row ws @ new\<rparr>)"
    by (simp only: setup_required_columns_def add_columns_if_missing_def a)
  with s show ?thesis
    by (auto simp: process_unprocessed_header)
qed

text \<open>
  C10. With \<open>max_records = 0\<close> the run is the run without a cap: every unprocessed record
  gets its iteration, in order, with the notes and decision of its research.
\<close>

theorem max_records_zero_is_no_cap:
  "process_unprocessed_records client ws (Some 0) = process_unprocessed_records client ws None \<and>
   map (\<lambda>it. (it_row it, it_notes it, it_decision it))
       (snd (process_unprocessed_records client ws (Some 0)))
     = map (\<lambda>r. (key_row_index r, research_and_grade_company client (row_fields r)))
         (get_unprocessed_records ws)"
proof -
  have "process_unprocessed_records client ws (Some 0) = process_records client ws (get_unprocessed_records ws)"
    by (cases "get_unprocessed_records ws = []") (simp_all add: process_unprocessed_records_def)
  moreover have "process_unprocessed_records client ws None = process_records client ws (get_unprocessed_records ws)"
    by (cases "get_unprocessed_records ws = []") (simp_all add: process_unprocessed_records_def)
  ultimately show ?thesis
    by (simp only: process_records_iterations)
qed

theorem max_records_zero_is_no_cap_witness:
  "process_unprocessed_records (\<lambda>prompt. Inl ''down'')
     \<lparr>header_row = [''Timestamp'', ''Company Name'', ''Research Notes'', ''Decision''],
      data_rows = [[''t1'', ''Acme''], [''t2'', ''Beta'']]\<rparr> (Some 0)
   = process_unprocessed_records (\<lambda>prompt. Inl ''down'')
     \<lparr>header_row = [''Timestamp'', ''Company Name'', ''Research Notes'', ''Decision''],
      data_rows = [[''t1'', ''Acme''], [''t2'', ''Beta'']]\<rparr> None \<and>
   map it_row (snd (process_unprocessed_records (\<lambda>prompt. Inl ''down'')
     \<lparr>header_row = [''Timestamp'', ''Company Name'', ''Research Notes'', ''Decision''],
      data_rows = [[''t1'', ''Acme''], [''t2'', ''Beta'']]\<rparr> (Some 0))) = [2, 3]"
proof -
  note t = max_records_zero_is_no_cap
    [where client = "\<lambda>prompt. Inl ''down''"
       and ws = "\<lparr>header_row = [''Timestamp'', ''Company Name'', ''Research Notes'', ''Decision''],
                 data_rows = [[''t1'', ''Acme''], [''t2'', ''Beta'']]\<rparr>"]
  have "map it_row (snd (process_unprocessed_records (\<lambda>prompt. Inl ''down'')
     \<lparr>header_row = [''Timestamp'', ''Company Name'', ''Research Notes'', ''Decision''],
      data_rows = [[''t1'', ''Acme''], [''t2'', ''Beta'']]\<rparr> (Some 0))) = [2, 3]"
    by code_simp
  with t [THEN conjunct1] show ?thesis
    by (intro conjI)
qed

theorem run_keeps_header_setup_appends_witness:
  "header_row (fst (process_unprocessed_records
       (\<lambda>prompt. Inr ''SPONSOR DECISION: Eligible\<newline>REASONING: Fine.'')
       \<lparr>header_row = [''Timestamp'', ''Company Name''], data_rows = [[''2024-01-05'', ''Acme'']]\<rparr>
       None))
     = [''Timestamp'', ''Company Name''] \<and>
   header_row (snd (setup_required_columns
       \<lparr>header_row = [''Timestamp'', ''Company Name''], data_rows = [[''2024-01-05'', ''Acme'']]\<rparr>))
     = [''Timestamp'', ''Company Name'', ''Research Notes'', ''Decision'']"
proof -
  note t = run_keeps_header_setup_appends
    [where client = "\<lambda>prompt. Inr ''SPONSOR DECISION: Eligible\<newline>REASONING: Fine.''"
       and ws = "\<lparr>header_row = [''Timestamp'', ''Company Name''],
                 data_rows = [[''2024-01-05'', ''Acme'']]\<rparr>"
       and max_records = None]
  have "header_row (snd (setup_required_columns
       \<lparr>header_row = [''Timestamp'', ''Company Name''], data_rows = [[''2024-01-05'', ''Acme'']]\<rparr>))
     = [''Timestamp'', ''Company Name'', ''Research Notes'', ''Decision'']"
    by code_simp
  with t [THEN conjunct1] show ?thesis
    by simp
qed

text \<open>
  C6 does not hold of the code. The cap itself is applied as the claim says: with
  \<open>max_records = 1\<close> and the two unprocessed records Acme and Beta, the run has the one
  iteration for Acme, and the cells of Beta stay empty. But the first record is not
  written: Acme sits in sheet row 3 behind a filtered row, its result goes to row 2, and
  after the run Acme is still returned as unprocessed, together with Beta.
\<close>

theorem capped_run_writes_other_row:
  "map (\<lambda>r. (dict_get (row_fields r) ''Company Name'' [], key_row_index r))
     (get_unprocessed_records
        \<lparr>header_row = [''Timestamp'', ''Company Name'', ''Research Notes'', ''Decision''],
         data_rows = [[[], ''Ghost'', [], []], [''2024-01-05'', ''Acme'', [], []],
                      [''2024-01-06'', ''Beta'', [], []]]\<rparr>)
     = [(''Acme'', 2), (''Beta'', 3)] \<and>
   process_unprocessed_records
     (\<lambda>prompt. Inr ''SPONSOR DECISION: Eligible\<newline>REASONING: Fine.'')
     \<lparr>header_row = [''Timestamp'', ''Company Name'', ''Research Notes'', ''Decision''],
      data_rows = [[[], ''Ghost'', [], []], [''2024-01-05'', ''Acme'', [], []],
                   [''2024-01-06'', ''Beta'', [], []]]\<rparr>
     (Some 1)
   = (\<lparr>header_row = [''Timestamp'', ''Company Name'', ''Research Notes'', ''Decision''],
       data_rows =
         [[[], ''Ghost'', ''SPONSOR DECISION: Eligible\<newline>REASONING: Fine.'',
           ''Eligible Sponsor: Fine.''],
          [''2024-01-05'', ''Acme'', [], []],
          [''2024-01-06'', ''Beta'', [], []]]\<rparr>,
      [\<lparr>it_company = ''Acme'', it_row = 2,
        it_notes = ''SPONSOR DECISION: Eligible\<newline>REASONING: Fine.'',
        it_decision = ''Eligible Sponsor: Fine.'', it_success = True\<rparr>]) \<and>
   map (\<lambda>r. (dict_get (row_fields r) ''Company Name'' [], key_row_index r))
     (get_unprocessed_records
        \<lparr>header_row = [''Timestamp'', ''Company Name'', ''Research Notes'', ''Decision''],
         data_rows =
           [[[], ''Ghost'', ''SPONSOR DECISION: Eligible\<newline>REASONING: Fine.'',
             ''Eligible Sponsor: Fine.''],
            [''2024-01-05'', ''Acme'', [], []],
            [''2024-01-06'', ''Beta'', [], []]]\<rparr>)
     = [(''Acme'', 2), (''Beta'', 3)]"
  by code_simp

end
